theory Spec2Isabelle
  imports Main
begin

section \<open>The leaderboard component \<open>UserRankings\<close>\<close>

text \<open>
  A shallow embedding of \<^verbatim>\<open>src/components/leaderboard/UserRankings.tsx\<close>.

  Conventions of the model:
  \<^item> a JavaScript number that holds a score, a count or a number of likes is an \<open>int\<close>
    (the sums of the component are exact on integers below \<open>2^53\<close>);
  \<^item> a field that may be \<open>null\<close> or \<open>undefined\<close> is an \<open>option\<close>;
  \<^item> a \<open>Date\<close> is its time value in milliseconds, read on the clock of the viewer's zone,
    which is taken to have a fixed offset, so that every calendar day has
    \<open>86400000\<close> milliseconds; \<open>new Date(s)\<close> of a string that is no date has the time
    value \<open>NaN\<close>, which is \<open>None\<close>;
  \<^item> the component's React state together with what it sends outside (console, alerts,
    requests to the database service) is one record, passed through every handler;
  \<^item> an awaited request either returns the object \<open>{ data, error }\<close> or throws;
  \<^item> a handler runs from its first line to its last without another handler in between.
\<close>

subsection \<open>Rows of the database service\<close>

record WorkoutLog =
  total :: "int option"
  completed_at :: "int option"

record Profile =
  p_id :: string
  p_first_name :: "string option"
  p_last_name :: "string option"
  p_profile_name :: "string option"
  workout_logs :: "WorkoutLog list option"

text \<open>The interface \<open>UserRanking\<close> (its field \<open>id\<close> is \<open>ranking_id\<close> here).\<close>

record UserRanking =
  ranking_id :: string
  first_name :: string
  last_name :: string
  profile_name :: string
  total_workouts :: int
  total_score :: int
  daily_score :: int
  likes :: int
  hasLiked :: bool

subsection \<open>Requests and their outcomes\<close>

record 'a Response =
  data :: "'a option"
  error :: "string option"

datatype 'a Outcome = Returned "'a Response" | Threw string

datatype Request =
    SelectProfiles
  | SelectLikes string
  | InsertLike string string int

text \<open>
  What the database service answers during one fetch cycle: the answer to the query on
  \<open>profiles\<close>, and the answer to the count query on \<open>likes\<close> for a profile id (the
  rows of that answer, each with its \<open>count\<close> field).
\<close>

record Backend =
  select_profiles :: "Profile list Outcome"
  select_likes :: "string \<Rightarrow> int option list Outcome"

record AuthUser =
  user_id :: string

subsection \<open>The component's state\<close>

record State =
  rankings :: "UserRanking list"
  loading :: bool
  selectedDate :: int
  console :: "(string \<times> string) list"
  alerts :: "string list"
  requests :: "Request list"

subsection \<open>The functions of date-fns that the component calls\<close>

text \<open>
  date-fns works on the calendar of the viewer's zone: \<open>startOfDay\<close> sets the time to
  00:00:00.000, \<open>endOfDay\<close> sets it to 23:59:59.999, \<open>addDays\<close> moves the day of the
  month by the amount and keeps the time, and \<open>subDays\<close> is \<open>addDays\<close> of the negated
  amount. On time values of a zone with a fixed offset these are the functions below.
  The time values are not bounded here; a \<open>Date\<close> of JavaScript holds those up to
  \<open>8.64e15\<close> milliseconds on either side of the epoch.

  \<open>fetchRankings\<close> writes the two bounds with \<open>toISOString\<close> and reads them back with
  \<open>new Date\<close>, which gives the same time values, so the model passes the time values on.
\<close>

definition MS_PER_DAY :: int where
  "MS_PER_DAY = 86400000"

definition startOfDay :: "int \<Rightarrow> int" where
  "startOfDay d = d - d mod MS_PER_DAY"

definition endOfDay :: "int \<Rightarrow> int" where
  "endOfDay d = startOfDay d + (MS_PER_DAY - 1)"

definition addDays :: "int \<Rightarrow> int \<Rightarrow> int" where
  "addDays d amount = d + amount * MS_PER_DAY"

definition subDays :: "int \<Rightarrow> int \<Rightarrow> int" where
  "subDays d amount = addDays d (- amount)"

text \<open>The calendar day of a date, as a number of days, and the time within that day.\<close>

definition day_of :: "int \<Rightarrow> int" where
  "day_of d = d div MS_PER_DAY"

definition time_of_day :: "int \<Rightarrow> int" where
  "time_of_day d = d mod MS_PER_DAY"

subsection \<open>\<open>fetchRankings\<close>: the callback run on every profile\<close>

text \<open>\<open>log.total || 0\<close>\<close>

definition total_or_0 :: "WorkoutLog \<Rightarrow> int" where
  "total_or_0 log = (case total log of None \<Rightarrow> 0 | Some v \<Rightarrow> v)"

text \<open>\<open>logs.reduce((sum, log) => sum + (log.total || 0), 0)\<close>\<close>

definition reduce_total :: "WorkoutLog list \<Rightarrow> int" where
  "reduce_total logs = foldl (\<lambda>sum log. sum + total_or_0 log) 0 logs"

text \<open>
  The predicate of the filter: \<open>completedAt >= new Date(todayStart) && completedAt <=
  new Date(todayEnd)\<close>; a comparison with the time value \<open>NaN\<close> is false.
\<close>

definition in_selected_day :: "int \<Rightarrow> int \<Rightarrow> WorkoutLog \<Rightarrow> bool" where
  "in_selected_day todayStart todayEnd log =
     (case completed_at log of
        None \<Rightarrow> False
      | Some completedAt \<Rightarrow> todayStart \<le> completedAt \<and> completedAt \<le> todayEnd)"

text \<open>\<open>profile.workout_logs?.filter(...) || []\<close>\<close>

definition dailyWorkouts :: "int \<Rightarrow> int \<Rightarrow> Profile \<Rightarrow> WorkoutLog list" where
  "dailyWorkouts todayStart todayEnd profile =
     (case workout_logs profile of
        None \<Rightarrow> []
      | Some logs \<Rightarrow> filter (in_selected_day todayStart todayEnd) logs)"

definition dailyScore :: "int \<Rightarrow> int \<Rightarrow> Profile \<Rightarrow> int" where
  "dailyScore todayStart todayEnd profile =
     reduce_total (dailyWorkouts todayStart todayEnd profile)"

text \<open>\<open>likesData ? likesData[0]?.count || 0 : 0\<close>\<close>

definition likes_of :: "int option list option \<Rightarrow> int" where
  "likes_of likesData =
     (case likesData of
        None \<Rightarrow> 0
      | Some [] \<Rightarrow> 0
      | Some (c # rest) \<Rightarrow> (case c of None \<Rightarrow> 0 | Some n \<Rightarrow> n))"

text \<open>\<open>s || ''\<close>\<close>

definition or_empty :: "string option \<Rightarrow> string" where
  "or_empty s = (case s of None \<Rightarrow> [] | Some v \<Rightarrow> v)"

text \<open>The object the callback returns when the count of likes came back.\<close>

definition user_stat :: "int \<Rightarrow> int \<Rightarrow> Profile \<Rightarrow> int \<Rightarrow> UserRanking" where
  "user_stat todayStart todayEnd profile n =
     \<lparr> ranking_id = p_id profile,
       first_name = or_empty (p_first_name profile),
       last_name = or_empty (p_last_name profile),
       profile_name = or_empty (p_profile_name profile),
       total_workouts = (case workout_logs profile of None \<Rightarrow> 0 | Some logs \<Rightarrow> int (length logs)),
       total_score = (case workout_logs profile of None \<Rightarrow> 0 | Some logs \<Rightarrow> reduce_total logs),
       daily_score = dailyScore todayStart todayEnd profile,
       likes = n,
       hasLiked = False \<rparr>"

text \<open>
  The callback of \<open>data.map\<close>, given the outcome of its request for the count of likes:
  it throws (\<open>Inl\<close>) when the request throws, returns \<open>null\<close> when the request returns
  an error, and returns the profile's entry otherwise.
\<close>

definition profile_stat ::
  "int \<Rightarrow> int \<Rightarrow> Profile \<Rightarrow> int option list Outcome \<Rightarrow> string + UserRanking option" where
  "profile_stat todayStart todayEnd profile res =
     (case res of
        Threw e \<Rightarrow> Inl e
      | Returned r \<Rightarrow>
          (case error r of
             Some likesError \<Rightarrow> Inr None
           | None \<Rightarrow> Inr (Some (user_stat todayStart todayEnd profile (likes_of (data r))))))"

text \<open>What the callbacks write with \<open>console.error\<close>, in the order of the profiles.\<close>

fun likes_errors :: "Backend \<Rightarrow> Profile list \<Rightarrow> (string \<times> string) list" where
  "likes_errors be [] = []"
| "likes_errors be (p # ps) =
     (case select_likes be (p_id p) of
        Threw e \<Rightarrow> likes_errors be ps
      | Returned r \<Rightarrow>
          (case error r of
             None \<Rightarrow> likes_errors be ps
           | Some likesError \<Rightarrow> (''Error fetching likes:'', likesError) # likes_errors be ps))"

text \<open>\<open>Promise.all\<close>: rejected as soon as one of the promises is.\<close>

fun promise_all :: "(string + 'a) list \<Rightarrow> string + 'a list" where
  "promise_all [] = Inr []"
| "promise_all (Inl e # rs) = Inl e"
| "promise_all (Inr v # rs) =
     (case promise_all rs of Inl e \<Rightarrow> Inl e | Inr vs \<Rightarrow> Inr (v # vs))"

definition userStats ::
  "Backend \<Rightarrow> int \<Rightarrow> int \<Rightarrow> Profile list \<Rightarrow> string + UserRanking option list" where
  "userStats be todayStart todayEnd profiles =
     promise_all
       (map (\<lambda>profile. profile_stat todayStart todayEnd profile (select_likes be (p_id profile)))
          profiles)"

text \<open>\<open>userStats.filter(stat => stat !== null)\<close>\<close>

fun validUserStats :: "UserRanking option list \<Rightarrow> UserRanking list" where
  "validUserStats [] = []"
| "validUserStats (None # stats) = validUserStats stats"
| "validUserStats (Some stat # stats) = stat # validUserStats stats"

text \<open>
  \<open>validUserStats.sort((a, b) => b.daily_score - a.daily_score).slice(0, 10)\<close>; the sort
  of an array is stable.
\<close>

definition sortedRankings :: "UserRanking list \<Rightarrow> UserRanking list" where
  "sortedRankings stats = take 10 (sort_key (\<lambda>a. - daily_score a) stats)"

subsection \<open>\<open>fetchRankings\<close>: one cycle\<close>

text \<open>The \<open>catch\<close> block of \<open>fetchRankings\<close>.\<close>

definition fetch_catch :: "string \<Rightarrow> State \<Rightarrow> State" where
  "fetch_catch e s = s\<lparr>console := console s @ [(''Error fetching rankings:'', e)]\<rparr>"

definition fetchRankings :: "Backend \<Rightarrow> State \<Rightarrow> State" where
  "fetchRankings be s0 =
     (let s1 = s0\<lparr>loading := True\<rparr>;
          todayStart = startOfDay (selectedDate s1);
          todayEnd = endOfDay (selectedDate s1);
          s2 = s1\<lparr>requests := requests s1 @ [SelectProfiles]\<rparr>;
          s5 =
            (case select_profiles be of
               Threw e \<Rightarrow> fetch_catch e s2
             | Returned r \<Rightarrow>
                 (case error r of
                    Some e \<Rightarrow> s2\<lparr>console := console s2 @ [(''Supabase error:'', e)]\<rparr>
                  | None \<Rightarrow>
                      (case data r of
                         None \<Rightarrow> fetch_catch ''TypeError'' s2
                       | Some profiles \<Rightarrow>
                           (let s3 = s2\<lparr>requests :=
                                         requests s2 @ map (\<lambda>profile. SelectLikes (p_id profile)) profiles\<rparr>;
                                s4 = s3\<lparr>console := console s3 @ likes_errors be profiles\<rparr>
                            in case userStats be todayStart todayEnd profiles of
                                 Inl e \<Rightarrow> fetch_catch e s4
                               | Inr stats \<Rightarrow>
                                   s4\<lparr>rankings := sortedRankings (validUserStats stats)\<rparr>))))
      in s5\<lparr>loading := False\<rparr>)"

subsection \<open>The date navigator\<close>

definition handlePrevDay :: "State \<Rightarrow> State" where
  "handlePrevDay s = s\<lparr>selectedDate := subDays (selectedDate s) 1\<rparr>"

definition handleNextDay :: "State \<Rightarrow> State" where
  "handleNextDay s = s\<lparr>selectedDate := addDays (selectedDate s) 1\<rparr>"

subsection \<open>The like action\<close>

text \<open>The two updates that \<open>handleLike\<close> passes to \<open>setRankings\<close>.\<close>

definition like_row :: "string \<Rightarrow> UserRanking \<Rightarrow> UserRanking" where
  "like_row profileId ranking =
     (if ranking_id ranking = profileId
      then ranking\<lparr>likes := likes ranking + 1, hasLiked := True\<rparr>
      else ranking)"

definition unlike_row :: "string \<Rightarrow> UserRanking \<Rightarrow> UserRanking" where
  "unlike_row profileId ranking =
     (if ranking_id ranking = profileId
      then ranking\<lparr>likes := likes ranking - 1, hasLiked := False\<rparr>
      else ranking)"

text \<open>
  \<open>handleLike\<close>, given the viewer of the auth context, the outcome of the insert and
  the time of the click.
\<close>

definition handleLike ::
  "AuthUser option \<Rightarrow> unit Outcome \<Rightarrow> int \<Rightarrow> string \<Rightarrow> State \<Rightarrow> State" where
  "handleLike user ins now profileId s =
     (case user of
        None \<Rightarrow> s\<lparr>alerts := alerts s @ [''You must be logged in to like a score.'']\<rparr>
      | Some u \<Rightarrow>
          (let s1 = s\<lparr>rankings := map (like_row profileId) (rankings s)\<rparr>;
               s2 = s1\<lparr>requests := requests s1 @ [InsertLike (user_id u) profileId now]\<rparr>
           in case ins of
                Threw e \<Rightarrow>
                  s2\<lparr>console := console s2 @ [(''Error liking profile:'', e)],
                     alerts := alerts s2 @ [''Failed to like profile. Please try again.'']\<rparr>
              | Returned r \<Rightarrow>
                  (case error r of
                     None \<Rightarrow> s2
                   | Some e \<Rightarrow>
                       s2\<lparr>console := console s2 @ [(''Error liking profile:'', e)],
                          rankings := map (unlike_row profileId) (rankings s2),
                          alerts := alerts s2 @ [''Failed to like profile. Please try again.'']\<rparr>)))"

subsection \<open>Notions used to state the properties\<close>

text \<open>The logs of a profile, none when the collection is missing.\<close>

definition logs_of :: "Profile \<Rightarrow> WorkoutLog list" where
  "logs_of profile = (case workout_logs profile of None \<Rightarrow> [] | Some logs \<Rightarrow> logs)"

text \<open>
  The daily score in the words of the specification: the sum of \<open>total\<close> over exactly
  the logs whose \<open>completed_at\<close> lies in the inclusive interval from the start to the
  end of the selected day.
\<close>

definition spec_daily_score :: "int \<Rightarrow> WorkoutLog list \<Rightarrow> int" where
  "spec_daily_score selected logs =
     sum_list (map total_or_0
       (filter (\<lambda>log. case completed_at log of
                        None \<Rightarrow> False
                      | Some t \<Rightarrow> startOfDay selected \<le> t \<and> t \<le> endOfDay selected) logs))"

text \<open>The query on \<open>profiles\<close> returned the rows \<open>profiles\<close> and no error.\<close>

definition profiles_fetched :: "Backend \<Rightarrow> Profile list \<Rightarrow> bool" where
  "profiles_fetched be profiles =
     (case select_profiles be of
        Threw e \<Rightarrow> False
      | Returned r \<Rightarrow> error r = None \<and> data r = Some profiles)"

text \<open>The request for a profile's count of likes returned, with an error or without.\<close>

definition likes_returned :: "Backend \<Rightarrow> Profile \<Rightarrow> bool" where
  "likes_returned be profile =
     (case select_likes be (p_id profile) of Threw e \<Rightarrow> False | Returned r \<Rightarrow> True)"

text \<open>The request for a profile's count of likes returned without an error.\<close>

definition likes_succeeded :: "Backend \<Rightarrow> Profile \<Rightarrow> bool" where
  "likes_succeeded be profile =
     (case select_likes be (p_id profile) of
        Threw e \<Rightarrow> False
      | Returned r \<Rightarrow> error r = None)"

text \<open>The request for a profile's count of likes returned an error.\<close>

definition likes_failed :: "Backend \<Rightarrow> Profile \<Rightarrow> bool" where
  "likes_failed be profile =
     (case select_likes be (p_id profile) of
        Threw e \<Rightarrow> False
      | Returned r \<Rightarrow> error r \<noteq> None)"

text \<open>The entry of a profile whose count of likes came back, on the selected date.\<close>

definition stat_of :: "Backend \<Rightarrow> int \<Rightarrow> Profile \<Rightarrow> UserRanking" where
  "stat_of be selected profile =
     user_stat (startOfDay selected) (endOfDay selected) profile
       (likes_of (case select_likes be (p_id profile) of
                    Threw e \<Rightarrow> None
                  | Returned r \<Rightarrow> data r))"

text \<open>Some concrete inputs.\<close>

definition profile0 :: Profile where
  "profile0 = \<lparr> p_id = ''a'', p_first_name = Some ''Ada'', p_last_name = None,
                p_profile_name = None, workout_logs = None \<rparr>"

definition state0 :: State where
  "state0 = \<lparr> rankings = [], loading = True, selectedDate = 0, console = [], alerts = [],
              requests = [] \<rparr>"

definition backend0 :: "Profile list \<Rightarrow> Backend" where
  "backend0 profiles =
     \<lparr> select_profiles = Returned \<lparr> data = Some profiles, error = None \<rparr>,
       select_likes = (\<lambda>i. if i = ''b'' then Returned \<lparr> data = None, error = Some ''timeout'' \<rparr>
                            else Returned \<lparr> data = Some [Some 2], error = None \<rparr>) \<rparr>"

definition ranking0 :: UserRanking where
  "ranking0 = \<lparr> ranking_id = ''a'', first_name = ''Ada'', last_name = [], profile_name = [],
                total_workouts = 0, total_score = 0, daily_score = 0, likes = 2,
                hasLiked = False \<rparr>"


definition profile1 :: Profile where
  "profile1 = \<lparr> p_id = ''g'', p_first_name = None, p_last_name = None, p_profile_name = None,
                workout_logs = Some [\<lparr>total = Some 5, completed_at = Some 0\<rparr>] \<rparr>"

definition profile2 :: Profile where
  "profile2 = \<lparr> p_id = ''x'', p_first_name = None, p_last_name = None, p_profile_name = None,
                workout_logs = Some [\<lparr>total = Some (- 5), completed_at = Some 86400000\<rparr>] \<rparr>"

section \<open>Properties\<close>

subsection \<open>Sums and the bounds of a day\<close>

lemma foldl_total:
  "foldl (\<lambda>sum log. sum + total_or_0 log) a logs = a + sum_list (map total_or_0 logs)"
  by (induction logs arbitrary: a) simp_all

lemma reduce_total_sum: "reduce_total logs = sum_list (map total_or_0 logs)"
  by (simp add: reduce_total_def foldl_total)

lemma div_window:
  fixes m :: int
  assumes m: "0 < m"
  shows "(d - d mod m \<le> t \<and> t \<le> d - d mod m + (m - 1)) = (t div m = d div m)"
proof
  assume w: "d - d mod m \<le> t \<and> t \<le> d - d mod m + (m - 1)"
  have base: "d - d mod m = m * (d div m)"
    by (simp add: minus_mod_eq_mult_div)
  define r where "r = t - m * (d div m)"
  have "t = m * (d div m) + r" "0 \<le> r" "r < m"
    using w base by (simp_all add: r_def)
  then show "t div m = d div m"
    by (rule int_div_pos_eq)
next
  assume e: "t div m = d div m"
  have "d - d mod m = t - t mod m"
    by (simp add: minus_mod_eq_mult_div e)
  moreover have "0 \<le> t mod m" "t mod m < m"
    using m by simp_all
  ultimately show "d - d mod m \<le> t \<and> t \<le> d - d mod m + (m - 1)"
    by simp
qed

lemma day_bounds:
  "(startOfDay d \<le> t \<and> t \<le> endOfDay d) = (day_of t = day_of d)"
  unfolding startOfDay_def endOfDay_def day_of_def
  by (rule div_window) (simp add: MS_PER_DAY_def)

lemma in_selected_day_iff:
  "in_selected_day (startOfDay d) (endOfDay d) log =
     (case completed_at log of None \<Rightarrow> False | Some t \<Rightarrow> day_of t = day_of d)"
  by (simp add: in_selected_day_def day_bounds split: option.splits)

lemma dailyScore_spec:
  "dailyScore (startOfDay d) (endOfDay d) p = spec_daily_score d (logs_of p)"
proof -
  have "in_selected_day (startOfDay d) (endOfDay d) =
        (\<lambda>log. case completed_at log of None \<Rightarrow> False
                | Some t \<Rightarrow> startOfDay d \<le> t \<and> t \<le> endOfDay d)"
    by (rule ext) (simp add: in_selected_day_def)
  then show ?thesis
    by (simp add: dailyScore_def dailyWorkouts_def spec_daily_score_def logs_of_def
        reduce_total_sum split: option.splits)
qed

lemma daily_score_user_stat:
  "daily_score (user_stat (startOfDay d) (endOfDay d) p n) = spec_daily_score d (logs_of p)"
  by (simp add: user_stat_def dailyScore_spec)

lemma total_score_user_stat:
  "total_score (user_stat ts te p n) = sum_list (map total_or_0 (logs_of p))"
  by (simp add: user_stat_def logs_of_def reduce_total_sum split: option.splits)

lemma total_workouts_user_stat:
  "total_workouts (user_stat ts te p n) = int (length (logs_of p))"
  by (simp add: user_stat_def logs_of_def split: option.splits)

lemma sum_filter_le:
  "(\<And>x. x \<in> set xs \<Longrightarrow> (0::int) \<le> f x) \<Longrightarrow>
   sum_list (map f (filter P xs)) \<le> sum_list (map f xs)"
  by (induction xs) (auto simp: add_increasing)

subsection \<open>The result of a fetch cycle\<close>

lemma userStats_returned:
  "list_all (likes_returned be) ps \<Longrightarrow>
   userStats be (startOfDay d) (endOfDay d) ps =
     Inr (map (\<lambda>p. if likes_succeeded be p then Some (stat_of be d p) else None) ps)"
proof (induction ps)
  case Nil
  then show ?case by (simp add: userStats_def)
next
  case (Cons p ps)
  then have ih: "promise_all (map (\<lambda>profile. profile_stat (startOfDay d) (endOfDay d) profile
                    (select_likes be (p_id profile))) ps) =
     Inr (map (\<lambda>p. if likes_succeeded be p then Some (stat_of be d p) else None) ps)"
    by (simp add: userStats_def)
  from Cons.prems obtain r where r: "select_likes be (p_id p) = Returned r"
    by (auto simp: likes_returned_def split: Outcome.splits)
  have head: "profile_stat (startOfDay d) (endOfDay d) p (select_likes be (p_id p)) =
        Inr (if likes_succeeded be p then Some (stat_of be d p) else None)"
    by (simp add: r profile_stat_def likes_succeeded_def stat_of_def split: option.splits)
  show ?case
    by (simp add: userStats_def ih head)
qed

lemma validUserStats_map:
  "validUserStats (map (\<lambda>p. if K p then Some (f p) else None) ps) = map f (filter K ps)"
  by (induction ps) simp_all

lemma fetchRankings_rankings:
  assumes "profiles_fetched be ps" and "list_all (likes_returned be) ps"
  shows "rankings (fetchRankings be s) =
         sortedRankings (map (stat_of be (selectedDate s)) (filter (likes_succeeded be) ps))"
proof -
  from assms(1) obtain r where r: "select_profiles be = Returned r" "error r = None"
      "data r = Some ps"
    by (auto simp: profiles_fetched_def split: Outcome.splits)
  show ?thesis
    by (simp add: fetchRankings_def Let_def r userStats_returned [OF assms(2)]
        validUserStats_map)
qed

lemma length_sortedRankings: "length (sortedRankings stats) = min 10 (length stats)"
  by (simp add: sortedRankings_def min.commute)

lemma set_sortedRankings: "set (sortedRankings stats) \<subseteq> set stats"
proof -
  have "set (take 10 (sort_key (\<lambda>a. - daily_score a) stats))
          \<subseteq> set (sort_key (\<lambda>a. - daily_score a) stats)"
    by (rule set_take_subset)
  then show ?thesis by (simp add: sortedRankings_def)
qed

lemma sorted_sortedRankings:
  "sorted_wrt (\<lambda>a b. daily_score b \<le> daily_score a) (sortedRankings stats)"
proof -
  have "sorted (map (\<lambda>a. - daily_score a) (sort_key (\<lambda>a. - daily_score a) stats))"
    by (rule sorted_sort_key)
  then have "sorted_wrt (\<lambda>a b. daily_score b \<le> daily_score a)
               (sort_key (\<lambda>a. - daily_score a) stats)"
    by (simp add: sorted_map)
  then show ?thesis
    unfolding sortedRankings_def by (rule sorted_wrt_take)
qed

subsection \<open>The daily score\<close>

text \<open>
  Claim C1. For every selected date and every profile, the daily score that the callback
  computes is the sum of \<open>total\<close> over exactly the logs whose \<open>completed_at\<close> lies in
  the inclusive interval from \<open>startOfDay\<close> to \<open>endOfDay\<close> of the selected date, and
  every entry of the rankings that a cycle sets carries that sum for its profile. A profile
  with the totals 5 and 10 on the selected day and 3 on another day gets the daily score
  15, the total score 18 and 3 workouts.
\<close>

theorem daily_score_is_sum_over_selected_day:
  "daily_score (user_stat (startOfDay d) (endOfDay d) p n) = spec_daily_score d (logs_of p)
   \<and> (profiles_fetched be ps \<and> list_all (likes_returned be) ps \<longrightarrow>
        list_all (\<lambda>u. \<exists>q \<in> set ps. ranking_id u = p_id q
                    \<and> daily_score u = spec_daily_score (selectedDate s) (logs_of q))
          (rankings (fetchRankings be s)))
   \<and> (day_of t1 = day_of d \<and> day_of t2 = day_of d \<and> day_of t3 \<noteq> day_of d \<longrightarrow>
        (let u = user_stat (startOfDay d) (endOfDay d)
                   (p\<lparr>workout_logs := Some [\<lparr>total = Some 5, completed_at = Some t1\<rparr>,
                                            \<lparr>total = Some 10, completed_at = Some t2\<rparr>,
                                            \<lparr>total = Some 3, completed_at = Some t3\<rparr>]\<rparr>) n
         in daily_score u = 15 \<and> total_score u = 18 \<and> total_workouts u = 3))"
proof (intro conjI impI)
  show "daily_score (user_stat (startOfDay d) (endOfDay d) p n) = spec_daily_score d (logs_of p)"
    by (rule daily_score_user_stat)
next
  assume ok: "profiles_fetched be ps \<and> list_all (likes_returned be) ps"
  show "list_all (\<lambda>u. \<exists>q \<in> set ps. ranking_id u = p_id q
                    \<and> daily_score u = spec_daily_score (selectedDate s) (logs_of q))
          (rankings (fetchRankings be s))"
    unfolding list_all_iff
  proof
    fix u
    assume "u \<in> set (rankings (fetchRankings be s))"
    then have "u \<in> set (sortedRankings (map (stat_of be (selectedDate s))
                 (filter (likes_succeeded be) ps)))"
      using ok fetchRankings_rankings [of be ps s] by simp
    then have "u \<in> set (map (stat_of be (selectedDate s)) (filter (likes_succeeded be) ps))"
      using set_sortedRankings by blast
    then obtain q where q: "q \<in> set ps" "u = stat_of be (selectedDate s) q"
      by auto
    have "ranking_id u = p_id q"
      by (simp add: q(2) stat_of_def user_stat_def)
    moreover have "daily_score u = spec_daily_score (selectedDate s) (logs_of q)"
      by (simp add: q(2) stat_of_def daily_score_user_stat)
    ultimately show "\<exists>q \<in> set ps. ranking_id u = p_id q
             \<and> daily_score u = spec_daily_score (selectedDate s) (logs_of q)"
      using q(1) by blast
  qed
next
  assume days: "day_of t1 = day_of d \<and> day_of t2 = day_of d \<and> day_of t3 \<noteq> day_of d"
  show "let u = user_stat (startOfDay d) (endOfDay d)
                   (p\<lparr>workout_logs := Some [\<lparr>total = Some 5, completed_at = Some t1\<rparr>,
                                            \<lparr>total = Some 10, completed_at = Some t2\<rparr>,
                                            \<lparr>total = Some 3, completed_at = Some t3\<rparr>]\<rparr>) n
         in daily_score u = 15 \<and> total_score u = 18 \<and> total_workouts u = 3"
    using days
    by (simp add: Let_def user_stat_def dailyScore_def dailyWorkouts_def in_selected_day_iff
        reduce_total_def total_or_0_def)
qed

theorem daily_score_is_sum_over_selected_day_witness:
  "(profiles_fetched (backend0 [profile0]) [profile0]
      \<and> list_all (likes_returned (backend0 [profile0])) [profile0])
   \<and> (day_of 0 = day_of 0 \<and> day_of 86399999 = day_of 0 \<and> day_of 86400000 \<noteq> day_of 0)
   \<and> list_all (\<lambda>u. \<exists>q \<in> set [profile0]. ranking_id u = p_id q
                    \<and> daily_score u = spec_daily_score (selectedDate state0) (logs_of q))
          (rankings (fetchRankings (backend0 [profile0]) state0))
   \<and> (let u = user_stat (startOfDay 0) (endOfDay 0)
                   (profile0\<lparr>workout_logs := Some [\<lparr>total = Some 5, completed_at = Some 0\<rparr>,
                                            \<lparr>total = Some 10, completed_at = Some 86399999\<rparr>,
                                            \<lparr>total = Some 3, completed_at = Some 86400000\<rparr>]\<rparr>) 0
         in daily_score u = 15 \<and> total_score u = 18 \<and> total_workouts u = 3)"
proof -
  have h1: "profiles_fetched (backend0 [profile0]) [profile0]
      \<and> list_all (likes_returned (backend0 [profile0])) [profile0]"
    by (simp add: profiles_fetched_def backend0_def likes_returned_def profile0_def)
  have h2: "day_of 0 = day_of 0 \<and> day_of 86399999 = day_of 0 \<and> day_of 86400000 \<noteq> day_of 0"
    by (simp add: day_of_def MS_PER_DAY_def)
  show ?thesis
    using h1 h2
      daily_score_is_sum_over_selected_day [of 0 profile0 0 "backend0 [profile0]" "[profile0]"
        state0 0 86399999 86400000]
    by blast
qed

subsection \<open>The ranking list\<close>

text \<open>
  Claim C2. When the profiles were fetched and every request for a count of likes
  returned, the ranking list that the cycle sets has the length
  \<open>min 10 n\<close>, where \<open>n\<close> is the number of profiles not dropped by an error of their
  request, and is ordered non-increasing by \<open>daily_score\<close>.
\<close>

theorem rankings_top_ten_sorted:
  assumes "profiles_fetched be ps" and "list_all (likes_returned be) ps"
  shows "length (rankings (fetchRankings be s)) = min 10 (length (filter (likes_succeeded be) ps))
       \<and> length (filter (likes_succeeded be) ps) = length ps - length (filter (likes_failed be) ps)
       \<and> sorted_wrt (\<lambda>a b. daily_score b \<le> daily_score a) (rankings (fetchRankings be s))"
proof -
  have r: "rankings (fetchRankings be s) =
           sortedRankings (map (stat_of be (selectedDate s)) (filter (likes_succeeded be) ps))"
    using assms by (rule fetchRankings_rankings)
  have "\<And>p. p \<in> set ps \<Longrightarrow> likes_failed be p = (\<not> likes_succeeded be p)"
    using assms(2)
    by (auto simp: list_all_iff likes_failed_def likes_succeeded_def likes_returned_def
        split: Outcome.splits)
  then have "filter (likes_failed be) ps = filter (\<lambda>p. \<not> likes_succeeded be p) ps"
    by (simp cong: filter_cong)
  then have "length (filter (likes_succeeded be) ps) + length (filter (likes_failed be) ps)
             = length ps"
    by (simp add: sum_length_filter_compl)
  then show ?thesis
    by (simp add: r length_sortedRankings sorted_sortedRankings)
qed

theorem rankings_top_ten_sorted_witness:
  "profiles_fetched (backend0 [profile0, profile0\<lparr>p_id := ''b''\<rparr>]) [profile0, profile0\<lparr>p_id := ''b''\<rparr>]
   \<and> list_all (likes_returned (backend0 [profile0, profile0\<lparr>p_id := ''b''\<rparr>]))
        [profile0, profile0\<lparr>p_id := ''b''\<rparr>]
   \<and> length (rankings (fetchRankings (backend0 [profile0, profile0\<lparr>p_id := ''b''\<rparr>]) state0)) = 1
   \<and> sorted_wrt (\<lambda>a b. daily_score b \<le> daily_score a)
        (rankings (fetchRankings (backend0 [profile0, profile0\<lparr>p_id := ''b''\<rparr>]) state0))"
proof -
  let ?ps = "[profile0, profile0\<lparr>p_id := ''b''\<rparr>]"
  have h1: "profiles_fetched (backend0 ?ps) ?ps"
    by (simp add: profiles_fetched_def backend0_def)
  have h2: "list_all (likes_returned (backend0 ?ps)) ?ps"
    by (simp add: likes_returned_def backend0_def profile0_def)
  have n: "length (filter (likes_succeeded (backend0 ?ps)) ?ps) = 1"
    by (simp add: likes_succeeded_def backend0_def profile0_def)
  show ?thesis
    using h1 h2 n rankings_top_ten_sorted [OF h1 h2, of state0] by simp
qed

subsection \<open>Profiles dropped for their count of likes\<close>

lemma ranking_id_stat_of: "ranking_id (stat_of be d p) = p_id p"
  by (simp add: stat_of_def user_stat_def)






text \<open>
  In general, as soon as one request for a count of likes throws, \<open>Promise.all\<close> is
  rejected and the rankings stay as they were.
\<close>

lemma userStats_thrown:
  "\<not> list_all (likes_returned be) ps \<Longrightarrow> \<exists>e. userStats be ts te ps = Inl e"
proof (induction ps)
  case Nil
  then show ?case by simp
next
  case (Cons p ps)
  show ?case
  proof (cases "select_likes be (p_id p)")
    case (Threw e)
    then show ?thesis by (simp add: userStats_def profile_stat_def)
  next
    case (Returned r)
    then have "likes_returned be p"
      by (simp add: likes_returned_def)
    then have "\<not> list_all (likes_returned be) ps"
      using Cons.prems by simp
    then obtain e where e: "userStats be ts te ps = Inl e"
      using Cons.IH by blast
    have "\<exists>v. profile_stat ts te p (select_likes be (p_id p)) = Inr v"
      by (cases "error r") (simp_all add: Returned profile_stat_def)
    then obtain v where v: "profile_stat ts te p (select_likes be (p_id p)) = Inr v"
      by blast
    show ?thesis
      using e v by (simp add: userStats_def)
  qed
qed

lemma like_request_thrown_aborts_cycle:
  assumes "profiles_fetched be ps" and "\<not> list_all (likes_returned be) ps"
  shows "rankings (fetchRankings be s) = rankings s"
proof -
  from assms(1) obtain r where r: "select_profiles be = Returned r" "error r = None"
      "data r = Some ps"
    by (auto simp: profiles_fetched_def split: Outcome.splits)
  from userStats_thrown [OF assms(2)] obtain e where
    "userStats be (startOfDay (selectedDate s)) (endOfDay (selectedDate s)) ps = Inl e"
    by blast
  then show ?thesis
    by (simp add: fetchRankings_def Let_def r fetch_catch_def)
qed

subsection \<open>Daily score and total score\<close>

text \<open>
  Claim C4, as stated: \<open>daily_score \<le> total_score\<close> for every entry of the rankings,
  for arbitrary totals, negative ones included. It fails: a profile whose only log has
  the total \<open>- 5\<close> and was completed on another day than the selected one gets the
  daily score 0 and the total score \<open>- 5\<close>.
\<close>

theorem daily_score_above_total_score_counterexample:
  "rankings (fetchRankings
      (backend0 [profile0\<lparr>workout_logs := Some [\<lparr>total = Some (- 5), completed_at = Some 86400000\<rparr>]\<rparr>])
      state0)
     = [ranking0\<lparr>total_workouts := 1, total_score := - 5, daily_score := 0\<rparr>]
   \<and> \<not> daily_score (ranking0\<lparr>total_workouts := 1, total_score := - 5, daily_score := 0\<rparr>)
         \<le> total_score (ranking0\<lparr>total_workouts := 1, total_score := - 5, daily_score := 0\<rparr>)"
  by (simp add: fetchRankings_def Let_def backend0_def profile0_def state0_def ranking0_def
      userStats_def profile_stat_def user_stat_def sortedRankings_def startOfDay_def
      endOfDay_def MS_PER_DAY_def dailyScore_def dailyWorkouts_def in_selected_day_def
      reduce_total_def total_or_0_def or_empty_def likes_of_def)

lemma daily_le_total_user_stat:
  assumes "list_all (\<lambda>log. 0 \<le> total_or_0 log) (logs_of p)"
  shows "daily_score (user_stat ts te p n) \<le> total_score (user_stat ts te p n)"
proof -
  have nonneg: "\<And>log. log \<in> set (logs_of p) \<Longrightarrow> 0 \<le> total_or_0 log"
    using assms by (simp add: list_all_iff)
  have "daily_score (user_stat ts te p n)
        = sum_list (map total_or_0 (filter (in_selected_day ts te) (logs_of p)))"
    by (simp add: user_stat_def dailyScore_def dailyWorkouts_def logs_of_def reduce_total_sum
        split: option.splits)
  also have "\<dots> \<le> sum_list (map total_or_0 (logs_of p))"
    using nonneg by (rule sum_filter_le)
  also have "\<dots> = total_score (user_stat ts te p n)"
    by (simp add: total_score_user_stat)
  finally show ?thesis .
qed

lemma rankings_are_stats:
  assumes "profiles_fetched be ps" and "list_all (likes_returned be) ps"
    and "u \<in> set (rankings (fetchRankings be s))"
  shows "\<exists>q \<in> set ps. likes_succeeded be q \<and> u = stat_of be (selectedDate s) q"
proof -
  have "u \<in> set (sortedRankings (map (stat_of be (selectedDate s))
               (filter (likes_succeeded be) ps)))"
    using assms(3) fetchRankings_rankings [OF assms(1,2), of s] by simp
  then have "u \<in> set (map (stat_of be (selectedDate s)) (filter (likes_succeeded be) ps))"
    using set_sortedRankings by blast
  then show ?thesis by auto
qed

text \<open>
  Claim C4, amended: for every profile none of whose logs has a negative total (a missing
  total counts as 0), the entry that the callback computes has
  \<open>daily_score \<le> total_score\<close>, whatever the logs of the other profiles are; and every
  entry of the rankings that a cycle sets is the entry of a fetched profile, so it has
  \<open>daily_score \<le> total_score\<close> when that profile has no negative total.
\<close>

theorem daily_score_le_total_score_per_profile:
  "(list_all (\<lambda>log. 0 \<le> total_or_0 log) (logs_of p) \<longrightarrow>
      daily_score (user_stat ts te p n) \<le> total_score (user_stat ts te p n))
   \<and> (profiles_fetched be ps \<and> list_all (likes_returned be) ps \<longrightarrow>
        list_all (\<lambda>u. (\<exists>q \<in> set ps. u = stat_of be (selectedDate s) q)
                     \<and> (\<forall>q \<in> set ps. u = stat_of be (selectedDate s) q
                           \<and> list_all (\<lambda>log. 0 \<le> total_or_0 log) (logs_of q)
                           \<longrightarrow> daily_score u \<le> total_score u))
          (rankings (fetchRankings be s)))"
proof (intro conjI impI)
  assume "list_all (\<lambda>log. 0 \<le> total_or_0 log) (logs_of p)"
  then show "daily_score (user_stat ts te p n) \<le> total_score (user_stat ts te p n)"
    by (rule daily_le_total_user_stat)
next
  assume ok: "profiles_fetched be ps \<and> list_all (likes_returned be) ps"
  show "list_all (\<lambda>u. (\<exists>q \<in> set ps. u = stat_of be (selectedDate s) q)
                     \<and> (\<forall>q \<in> set ps. u = stat_of be (selectedDate s) q
                           \<and> list_all (\<lambda>log. 0 \<le> total_or_0 log) (logs_of q)
                           \<longrightarrow> daily_score u \<le> total_score u))
          (rankings (fetchRankings be s))"
  proof (rule iffD2 [OF list_all_iff], rule ballI)
    fix u
    assume u: "u \<in> set (rankings (fetchRankings be s))"
    have "\<exists>q \<in> set ps. u = stat_of be (selectedDate s) q"
      using rankings_are_stats [of be ps u s] ok u by blast
    moreover have "\<forall>q \<in> set ps. u = stat_of be (selectedDate s) q
                           \<and> list_all (\<lambda>log. 0 \<le> total_or_0 log) (logs_of q)
                           \<longrightarrow> daily_score u \<le> total_score u"
      by (auto simp: stat_of_def intro: daily_le_total_user_stat)
    ultimately show "(\<exists>q \<in> set ps. u = stat_of be (selectedDate s) q)
                     \<and> (\<forall>q \<in> set ps. u = stat_of be (selectedDate s) q
                           \<and> list_all (\<lambda>log. 0 \<le> total_or_0 log) (logs_of q)
                           \<longrightarrow> daily_score u \<le> total_score u)"
      by blast
  qed
qed

theorem daily_score_le_total_score_per_profile_witness:
  "list_all (\<lambda>log. 0 \<le> total_or_0 log) (logs_of profile1)
   \<and> \<not> list_all (\<lambda>log. 0 \<le> total_or_0 log) (logs_of profile2)
   \<and> (profiles_fetched (backend0 [profile1, profile2]) [profile1, profile2]
        \<and> list_all (likes_returned (backend0 [profile1, profile2])) [profile1, profile2])
   \<and> daily_score (user_stat (startOfDay 0) (endOfDay 0) profile1 2)
        \<le> total_score (user_stat (startOfDay 0) (endOfDay 0) profile1 2)
   \<and> list_all (\<lambda>u. (\<exists>q \<in> set [profile1, profile2]. u = stat_of (backend0 [profile1, profile2]) (selectedDate state0) q)
                     \<and> (\<forall>q \<in> set [profile1, profile2]. u = stat_of (backend0 [profile1, profile2]) (selectedDate state0) q
                           \<and> list_all (\<lambda>log. 0 \<le> total_or_0 log) (logs_of q)
                           \<longrightarrow> daily_score u \<le> total_score u))
          (rankings (fetchRankings (backend0 [profile1, profile2]) state0))
   \<and> map ranking_id (rankings (fetchRankings (backend0 [profile1, profile2]) state0)) = [''g'', ''x'']"
proof -
  let ?ps = "[profile1, profile2]"
  have h1: "list_all (\<lambda>log. 0 \<le> total_or_0 log) (logs_of profile1)"
    by (simp add: profile1_def logs_of_def total_or_0_def)
  have h1': "\<not> list_all (\<lambda>log. 0 \<le> total_or_0 log) (logs_of profile2)"
    by (simp add: profile2_def logs_of_def total_or_0_def)
  have h2: "profiles_fetched (backend0 ?ps) ?ps \<and> list_all (likes_returned (backend0 ?ps)) ?ps"
    by (simp add: profiles_fetched_def backend0_def likes_returned_def profile1_def profile2_def)
  have s1: "likes_succeeded (backend0 ?ps) profile1" "likes_succeeded (backend0 ?ps) profile2"
    by (simp_all add: likes_succeeded_def backend0_def profile1_def profile2_def)
  have d: "daily_score (stat_of (backend0 ?ps) 0 profile1) = 5"
      "daily_score (stat_of (backend0 ?ps) 0 profile2) = 0"
    unfolding stat_of_def daily_score_user_stat
    by (simp_all add: spec_daily_score_def logs_of_def profile1_def profile2_def
        startOfDay_def endOfDay_def MS_PER_DAY_def total_or_0_def)
  have r: "rankings (fetchRankings (backend0 ?ps) state0)
           = [stat_of (backend0 ?ps) 0 profile1, stat_of (backend0 ?ps) 0 profile2]"
    using h2 s1 d fetchRankings_rankings [of "backend0 ?ps" ?ps state0]
    by (simp add: sortedRankings_def state0_def)
  have ids: "map ranking_id (rankings (fetchRankings (backend0 ?ps) state0)) = [''g'', ''x'']"
    unfolding r by (simp add: ranking_id_stat_of profile1_def profile2_def)
  show ?thesis
    using h1 h1' h2 ids
      daily_score_le_total_score_per_profile [where p = profile1 and ts = "startOfDay 0"
        and te = "endOfDay 0" and n = 2 and be = "backend0 ?ps" and ps = ?ps and s = state0]
    by blast
qed

subsection \<open>A failed query on the profiles\<close>

text \<open>
  Claim C8. When the query on \<open>profiles\<close> fails, by throwing or by returning an error,
  the cycle stops there: the rankings stay as they were, the loading state is cleared,
  the error is written to the console, and the query on \<open>profiles\<close> is the only request
  of the cycle (no request for a count of likes is sent).
\<close>

theorem bulk_failure_aborts_cycle:
  assumes "select_profiles be = Threw e
           \<or> (\<exists>r. select_profiles be = Returned r \<and> error r = Some e)"
  shows "rankings (fetchRankings be s) = rankings s
       \<and> loading (fetchRankings be s) = False
       \<and> requests (fetchRankings be s) = requests s @ [SelectProfiles]
       \<and> console (fetchRankings be s) =
           console s @ [(case select_profiles be of
                           Threw x \<Rightarrow> ''Error fetching rankings:''
                         | Returned r \<Rightarrow> ''Supabase error:'', e)]
       \<and> alerts (fetchRankings be s) = alerts s
       \<and> selectedDate (fetchRankings be s) = selectedDate s"
  using assms
  by (auto simp: fetchRankings_def Let_def fetch_catch_def)

theorem bulk_failure_aborts_cycle_witness:
  "(select_profiles \<lparr>select_profiles = Returned \<lparr>data = None, error = Some ''down''\<rparr>,
                     select_likes = (\<lambda>i. Threw ''unused'')\<rparr> = Threw ''down''
     \<or> (\<exists>r. select_profiles \<lparr>select_profiles = Returned \<lparr>data = None, error = Some ''down''\<rparr>,
                     select_likes = (\<lambda>i. Threw ''unused'')\<rparr> = Returned r \<and> error r = Some ''down''))
   \<and> rankings (fetchRankings \<lparr>select_profiles = Returned \<lparr>data = None, error = Some ''down''\<rparr>,
                     select_likes = (\<lambda>i. Threw ''unused'')\<rparr> (state0\<lparr>rankings := [ranking0]\<rparr>))
       = [ranking0]
   \<and> loading (fetchRankings \<lparr>select_profiles = Returned \<lparr>data = None, error = Some ''down''\<rparr>,
                     select_likes = (\<lambda>i. Threw ''unused'')\<rparr> (state0\<lparr>rankings := [ranking0]\<rparr>))
       = False
   \<and> requests (fetchRankings \<lparr>select_profiles = Returned \<lparr>data = None, error = Some ''down''\<rparr>,
                     select_likes = (\<lambda>i. Threw ''unused'')\<rparr> (state0\<lparr>rankings := [ranking0]\<rparr>))
       = [SelectProfiles]"
proof -
  let ?be = "\<lparr>select_profiles = Returned \<lparr>data = None, error = Some ''down''\<rparr>,
             select_likes = (\<lambda>i. Threw ''unused'')\<rparr> :: Backend"
  have h: "select_profiles ?be = Threw ''down''
           \<or> (\<exists>r. select_profiles ?be = Returned r \<and> error r = Some ''down'')"
    by simp
  show ?thesis
    using h bulk_failure_aborts_cycle [OF h, of "state0\<lparr>rankings := [ranking0]\<rparr>"]
    by (simp add: state0_def)
qed

subsection \<open>The like action\<close>

text \<open>
  Claim C5. Without an authenticated viewer the like action sends no request and leaves
  every row of the rankings as it was: all it does is the alert.
\<close>

theorem like_without_viewer_does_nothing:
  "handleLike None ins now profileId s =
     s\<lparr>alerts := alerts s @ [''You must be logged in to like a score.'']\<rparr>
   \<and> rankings (handleLike None ins now profileId s) = rankings s
   \<and> requests (handleLike None ins now profileId s) = requests s
   \<and> console (handleLike None ins now profileId s) = console s"
  by (simp add: handleLike_def)

lemma map_like_row:
  assumes "distinct (map ranking_id rs)" and "i < length rs" and "ranking_id (rs ! i) = profileId"
  shows "map (like_row profileId) rs = rs[i := (rs ! i)\<lparr>likes := likes (rs ! i) + 1, hasLiked := True\<rparr>]"
proof (rule nth_equalityI)
  show "length (map (like_row profileId) rs)
        = length (rs[i := (rs ! i)\<lparr>likes := likes (rs ! i) + 1, hasLiked := True\<rparr>])"
    by simp
next
  fix j
  assume "j < length (map (like_row profileId) rs)"
  then have j: "j < length rs" by simp
  show "map (like_row profileId) rs ! j
        = rs[i := (rs ! i)\<lparr>likes := likes (rs ! i) + 1, hasLiked := True\<rparr>] ! j"
  proof (cases "j = i")
    case True
    then show ?thesis using assms(2,3) by (simp add: like_row_def)
  next
    case False
    have "map ranking_id rs ! j \<noteq> map ranking_id rs ! i"
      using assms(1,2) j False by (simp add: nth_eq_iff_index_eq del: nth_map)
    then have "ranking_id (rs ! j) \<noteq> profileId"
      using assms(2,3) j by simp
    then show ?thesis using False j by (simp add: like_row_def)
  qed
qed

text \<open>
  Claim C6, as stated: for every rankings state, a successful like changes exactly one
  row. It fails on a state in which two rows carry the id: the update maps over all rows
  and changes both.
\<close>

theorem like_success_changes_two_rows_counterexample:
  "rankings (handleLike (Some \<lparr>user_id = ''v''\<rparr>) (Returned \<lparr>data = None, error = None\<rparr>) 0 ''a''
              (state0\<lparr>rankings := [ranking0, ranking0\<lparr>first_name := ''Bob''\<rparr>]\<rparr>))
     = [ranking0\<lparr>likes := 3, hasLiked := True\<rparr>,
        ranking0\<lparr>first_name := ''Bob'', likes := 3, hasLiked := True\<rparr>]
   \<and> ranking0\<lparr>likes := 3, hasLiked := True\<rparr> \<noteq> ranking0
   \<and> ranking0\<lparr>first_name := ''Bob'', likes := 3, hasLiked := True\<rparr>
        \<noteq> ranking0\<lparr>first_name := ''Bob''\<rparr>"
  by (simp add: handleLike_def Let_def like_row_def ranking0_def state0_def)

text \<open>
  The rows that a cycle sets have distinct ids when the fetched profiles have.
\<close>

lemma distinct_map_sortedRankings:
  "distinct (map f stats) \<Longrightarrow> distinct (map f (sortedRankings stats))"
proof -
  assume d: "distinct (map f stats)"
  have "distinct (map f (sort_key (\<lambda>a. - daily_score a) stats))"
    using d by (simp add: distinct_map)
  then have "distinct (take 10 (map f (sort_key (\<lambda>a. - daily_score a) stats)))"
    by (rule distinct_take)
  then show ?thesis
    by (simp add: sortedRankings_def take_map)
qed

lemma distinct_after_fetch:
  assumes "profiles_fetched be ps" and "list_all (likes_returned be) ps"
    and "distinct (map p_id ps)"
  shows "distinct (map ranking_id (rankings (fetchRankings be s)))"
proof -
  have e: "map ranking_id (map (stat_of be (selectedDate s)) (filter (likes_succeeded be) ps))
        = map p_id (filter (likes_succeeded be) ps)"
    by (simp add: ranking_id_stat_of)
  have "distinct (map p_id (filter (likes_succeeded be) ps))"
    using assms(3) by (rule distinct_map_filter)
  then have "distinct (map ranking_id
      (map (stat_of be (selectedDate s)) (filter (likes_succeeded be) ps)))"
    by (simp only: e)
  then show ?thesis
    unfolding fetchRankings_rankings [OF assms(1,2)] by (rule distinct_map_sortedRankings)
qed

text \<open>
  Claim C6, amended: for every rankings state and every profile id, a like of an
  authenticated viewer whose insert returns no error changes exactly the rows with that
  id: each of them gets \<open>likes\<close> grown by 1 and \<open>hasLiked\<close> true, every row with
  another id and everything else of the state but the list of requests stays as it was;
  when the rows have distinct ids and the id is present, that is exactly one row.
\<close>

theorem like_success_changes_rows_with_that_id:
  assumes "error r = None"
  shows "handleLike (Some u) (Returned r) now profileId s =
           s\<lparr>rankings := map (\<lambda>ranking. if ranking_id ranking = profileId
                                         then ranking\<lparr>likes := likes ranking + 1, hasLiked := True\<rparr>
                                         else ranking) (rankings s),
             requests := requests s @ [InsertLike (user_id u) profileId now]\<rparr>
       \<and> length (rankings (handleLike (Some u) (Returned r) now profileId s)) = length (rankings s)
       \<and> (\<forall>j < length (rankings s).
            rankings (handleLike (Some u) (Returned r) now profileId s) ! j =
              (if ranking_id (rankings s ! j) = profileId
               then (rankings s ! j)\<lparr>likes := likes (rankings s ! j) + 1, hasLiked := True\<rparr>
               else rankings s ! j))
       \<and> (distinct (map ranking_id (rankings s)) \<and> i < length (rankings s)
            \<and> ranking_id (rankings s ! i) = profileId \<longrightarrow>
            rankings (handleLike (Some u) (Returned r) now profileId s) =
              (rankings s)[i := (rankings s ! i)\<lparr>likes := likes (rankings s ! i) + 1,
                                                hasLiked := True\<rparr>])"
proof -
  have l: "like_row profileId = (\<lambda>ranking. if ranking_id ranking = profileId
                                         then ranking\<lparr>likes := likes ranking + 1, hasLiked := True\<rparr>
                                         else ranking)"
    by (rule ext) (simp add: like_row_def)
  have h: "handleLike (Some u) (Returned r) now profileId s =
           s\<lparr>rankings := map (like_row profileId) (rankings s),
             requests := requests s @ [InsertLike (user_id u) profileId now]\<rparr>"
    by (simp add: handleLike_def Let_def assms)
  have r: "rankings (handleLike (Some u) (Returned r) now profileId s)
           = map (like_row profileId) (rankings s)"
    by (simp add: h)
  have c1: "handleLike (Some u) (Returned r) now profileId s =
           s\<lparr>rankings := map (\<lambda>ranking. if ranking_id ranking = profileId
                                         then ranking\<lparr>likes := likes ranking + 1, hasLiked := True\<rparr>
                                         else ranking) (rankings s),
             requests := requests s @ [InsertLike (user_id u) profileId now]\<rparr>"
    using h by (simp only: l)
  have c2: "length (rankings (handleLike (Some u) (Returned r) now profileId s)) = length (rankings s)"
    by (simp add: r)
  have c3: "\<forall>j < length (rankings s).
            rankings (handleLike (Some u) (Returned r) now profileId s) ! j =
              (if ranking_id (rankings s ! j) = profileId
               then (rankings s ! j)\<lparr>likes := likes (rankings s ! j) + 1, hasLiked := True\<rparr>
               else rankings s ! j)"
    by (simp add: r like_row_def)
  have c4: "distinct (map ranking_id (rankings s)) \<and> i < length (rankings s)
            \<and> ranking_id (rankings s ! i) = profileId \<longrightarrow>
            rankings (handleLike (Some u) (Returned r) now profileId s) =
              (rankings s)[i := (rankings s ! i)\<lparr>likes := likes (rankings s ! i) + 1,
                                                hasLiked := True\<rparr>]"
    unfolding r using map_like_row [of "rankings s" i profileId] by blast
  show ?thesis
    using c1 c2 c3 c4 by blast
qed

theorem like_success_changes_rows_with_that_id_witness:
  "error \<lparr>data = None :: unit option, error = None\<rparr> = None
   \<and> (distinct (map ranking_id (rankings (state0\<lparr>rankings := [ranking0\<lparr>ranking_id := ''b''\<rparr>, ranking0]\<rparr>)))
       \<and> 1 < length (rankings (state0\<lparr>rankings := [ranking0\<lparr>ranking_id := ''b''\<rparr>, ranking0]\<rparr>))
       \<and> ranking_id (rankings (state0\<lparr>rankings := [ranking0\<lparr>ranking_id := ''b''\<rparr>, ranking0]\<rparr>) ! 1) = ''a'')
   \<and> rankings (handleLike (Some \<lparr>user_id = ''v''\<rparr>) (Returned \<lparr>data = None, error = None\<rparr>) 0 ''a''
        (state0\<lparr>rankings := [ranking0\<lparr>ranking_id := ''b''\<rparr>, ranking0]\<rparr>))
       = [ranking0\<lparr>ranking_id := ''b''\<rparr>, ranking0\<lparr>likes := 3, hasLiked := True\<rparr>]"
proof -
  let ?s = "state0\<lparr>rankings := [ranking0\<lparr>ranking_id := ''b''\<rparr>, ranking0]\<rparr>"
  let ?r = "\<lparr>data = None :: unit option, error = None\<rparr>"
  have h1: "error ?r = None" by simp
  have h2: "distinct (map ranking_id (rankings ?s)) \<and> 1 < length (rankings ?s)
            \<and> ranking_id (rankings ?s ! 1) = ''a''"
    by (simp add: ranking0_def)
  have "rankings (handleLike (Some \<lparr>user_id = ''v''\<rparr>) (Returned ?r) 0 ''a'' ?s) =
        (rankings ?s)[1 := (rankings ?s ! 1)\<lparr>likes := likes (rankings ?s ! 1) + 1,
                                             hasLiked := True\<rparr>]"
    using h2 like_success_changes_rows_with_that_id [OF h1, of "\<lparr>user_id = ''v''\<rparr>" 0 "''a''" ?s 1]
    by blast
  then have "rankings (handleLike (Some \<lparr>user_id = ''v''\<rparr>) (Returned ?r) 0 ''a'' ?s)
       = [ranking0\<lparr>ranking_id := ''b''\<rparr>, ranking0\<lparr>likes := 3, hasLiked := True\<rparr>]"
    by (simp add: ranking0_def)
  then show ?thesis
    using h1 h2 by blast
qed

text \<open>
  When the insert returns an error, the second update takes the first one back: the rows
  are those from before the click, provided the row was not liked yet (the button of a
  liked row is disabled).
\<close>

lemma unlike_like_row:
  "(ranking_id x = profileId \<longrightarrow> \<not> hasLiked x) \<Longrightarrow> unlike_row profileId (like_row profileId x) = x"
  by (simp add: unlike_row_def like_row_def)

lemma like_error_result_reverts:
  assumes "error r = Some e"
    and "\<forall>x \<in> set (rankings s). ranking_id x = profileId \<longrightarrow> \<not> hasLiked x"
  shows "rankings (handleLike (Some u) (Returned r) now profileId s) = rankings s"
proof -
  have "map (unlike_row profileId \<circ> like_row profileId) (rankings s) = map (\<lambda>x. x) (rankings s)"
    using assms(2) by (intro map_cong refl) (simp add: unlike_like_row)
  then show ?thesis
    by (simp add: handleLike_def Let_def assms(1))
qed

text \<open>
  Claim C3 says that the rankings are those from before the click when the insert fails,
  by returning an error or by throwing. The \<open>catch\<close> block of \<open>handleLike\<close> logs and
  alerts but takes nothing back: after an insert that throws, the row keeps the
  added like and \<open>hasLiked = true\<close>, whereas the same failure returned as an error
  restores the row.
\<close>

theorem like_insert_throws_keeps_optimistic_update:
  "rankings (handleLike (Some \<lparr>user_id = ''v''\<rparr>) (Threw ''Failed to fetch'') 0 ''a''
              (state0\<lparr>rankings := [ranking0]\<rparr>))
     = [ranking0\<lparr>likes := 3, hasLiked := True\<rparr>]
   \<and> rankings (handleLike (Some \<lparr>user_id = ''v''\<rparr>) (Threw ''Failed to fetch'') 0 ''a''
              (state0\<lparr>rankings := [ranking0]\<rparr>))
     \<noteq> rankings (state0\<lparr>rankings := [ranking0]\<rparr>)
   \<and> rankings (handleLike (Some \<lparr>user_id = ''v''\<rparr>)
                (Returned \<lparr>data = None, error = Some ''Failed to fetch''\<rparr>) 0 ''a''
              (state0\<lparr>rankings := [ranking0]\<rparr>))
     = rankings (state0\<lparr>rankings := [ranking0]\<rparr>)"
  by (simp add: handleLike_def Let_def like_row_def unlike_row_def ranking0_def state0_def)

subsection \<open>The date navigator\<close>

lemma day_of_addDays: "day_of (addDays d n) = day_of d + n"
  by (simp add: day_of_def addDays_def MS_PER_DAY_def)

lemma time_of_day_addDays: "time_of_day (addDays d n) = time_of_day d"
  by (simp add: time_of_day_def addDays_def MS_PER_DAY_def)

lemma selectedDate_funpow_prev:
  "selectedDate ((handlePrevDay ^^ n) s) = addDays (selectedDate s) (- int n)"
  by (induction n) (simp_all add: handlePrevDay_def subDays_def addDays_def algebra_simps)

lemma selectedDate_funpow_next:
  "selectedDate ((handleNextDay ^^ n) s) = addDays (selectedDate s) (int n)"
  by (induction n) (simp_all add: handleNextDay_def addDays_def algebra_simps)

text \<open>
  Claim C9. \<open>handlePrevDay\<close> moves the selected date to the calendar day before, at the
  same time of day, and \<open>handleNextDay\<close> to the calendar day after; nothing else of the
  state changes and no bound is checked, so \<open>n\<close> clicks move the date by \<open>n\<close> days,
  whatever \<open>n\<close> is.
\<close>

theorem day_navigation_shifts_by_one_day:
  "handlePrevDay s = s\<lparr>selectedDate := selectedDate s - MS_PER_DAY\<rparr>
   \<and> handleNextDay s = s\<lparr>selectedDate := selectedDate s + MS_PER_DAY\<rparr>
   \<and> day_of (selectedDate (handlePrevDay s)) = day_of (selectedDate s) - 1
   \<and> time_of_day (selectedDate (handlePrevDay s)) = time_of_day (selectedDate s)
   \<and> day_of (selectedDate (handleNextDay s)) = day_of (selectedDate s) + 1
   \<and> time_of_day (selectedDate (handleNextDay s)) = time_of_day (selectedDate s)
   \<and> day_of (selectedDate ((handlePrevDay ^^ n) s)) = day_of (selectedDate s) - int n
   \<and> day_of (selectedDate ((handleNextDay ^^ n) s)) = day_of (selectedDate s) + int n"
proof -
  have p: "selectedDate (handlePrevDay s) = addDays (selectedDate s) (- 1)"
    by (simp add: handlePrevDay_def subDays_def)
  have n: "selectedDate (handleNextDay s) = addDays (selectedDate s) 1"
    by (simp add: handleNextDay_def)
  have "handlePrevDay s = s\<lparr>selectedDate := selectedDate s - MS_PER_DAY\<rparr>"
    by (simp add: handlePrevDay_def subDays_def addDays_def)
  moreover have "handleNextDay s = s\<lparr>selectedDate := selectedDate s + MS_PER_DAY\<rparr>"
    by (simp add: handleNextDay_def addDays_def)
  moreover have "day_of (selectedDate (handlePrevDay s)) = day_of (selectedDate s) - 1"
    by (simp add: p day_of_addDays)
  moreover have "time_of_day (selectedDate (handlePrevDay s)) = time_of_day (selectedDate s)"
    by (simp only: p time_of_day_addDays)
  moreover have "day_of (selectedDate (handleNextDay s)) = day_of (selectedDate s) + 1"
    by (simp add: n day_of_addDays)
  moreover have "time_of_day (selectedDate (handleNextDay s)) = time_of_day (selectedDate s)"
    by (simp only: n time_of_day_addDays)
  moreover have "day_of (selectedDate ((handlePrevDay ^^ n) s)) = day_of (selectedDate s) - int n"
    by (simp add: selectedDate_funpow_prev day_of_addDays)
  moreover have "day_of (selectedDate ((handleNextDay ^^ n) s)) = day_of (selectedDate s) + int n"
    by (simp add: selectedDate_funpow_next day_of_addDays)
  ultimately show ?thesis by blast
qed

subsection \<open>Missing totals and missing logs\<close>

lemma total_or_0_missing: "total log = None \<Longrightarrow> total_or_0 log = 0"
  by (simp add: total_or_0_def)

lemma logs_of_update: "logs_of (p\<lparr>workout_logs := Some logs\<rparr>) = logs"
  by (simp add: logs_of_def)

text \<open>
  Claim C10. A log whose \<open>total\<close> is missing adds nothing to the total score and to the
  daily score and adds one to the number of workouts. A profile whose collection of logs is
  missing or empty gets 0 workouts, the total score 0 and the daily score 0, and its
  entry is among those that go into the sort, provided its count of likes came back.
\<close>

theorem missing_total_and_missing_logs:
  "(total log = None \<longrightarrow>
      (let u = user_stat (startOfDay d) (endOfDay d) (p\<lparr>workout_logs := Some (xs @ log # ys)\<rparr>) n;
           v = user_stat (startOfDay d) (endOfDay d) (p\<lparr>workout_logs := Some (xs @ ys)\<rparr>) n
       in total_score u = total_score v \<and> daily_score u = daily_score v
          \<and> total_workouts u = total_workouts v + 1))
   \<and> ((workout_logs q = None \<or> workout_logs q = Some []) \<and> error r = None \<longrightarrow>
        (\<exists>u. profile_stat (startOfDay d) (endOfDay d) q (Returned r) = Inr (Some u)
            \<and> total_workouts u = 0 \<and> total_score u = 0 \<and> daily_score u = 0))
   \<and> ((workout_logs q = None \<or> workout_logs q = Some []) \<and> q \<in> set ps
        \<and> likes_succeeded be q \<and> list_all (likes_returned be) ps \<longrightarrow>
        (\<exists>stats. userStats be (startOfDay d) (endOfDay d) ps = Inr stats
            \<and> stat_of be d q \<in> set (validUserStats stats)
            \<and> total_workouts (stat_of be d q) = 0 \<and> total_score (stat_of be d q) = 0
            \<and> daily_score (stat_of be d q) = 0))"
proof (intro conjI impI)
  assume t: "total log = None"
  show "let u = user_stat (startOfDay d) (endOfDay d) (p\<lparr>workout_logs := Some (xs @ log # ys)\<rparr>) n;
            v = user_stat (startOfDay d) (endOfDay d) (p\<lparr>workout_logs := Some (xs @ ys)\<rparr>) n
        in total_score u = total_score v \<and> daily_score u = daily_score v
           \<and> total_workouts u = total_workouts v + 1"
    by (simp add: Let_def total_score_user_stat daily_score_user_stat total_workouts_user_stat
        logs_of_update spec_daily_score_def total_or_0_missing [OF t])
next
  assume a: "(workout_logs q = None \<or> workout_logs q = Some []) \<and> error r = None"
  then show "\<exists>u. profile_stat (startOfDay d) (endOfDay d) q (Returned r) = Inr (Some u)
            \<and> total_workouts u = 0 \<and> total_score u = 0 \<and> daily_score u = 0"
    by (auto simp: profile_stat_def user_stat_def dailyScore_def dailyWorkouts_def
        reduce_total_def)
next
  assume a: "(workout_logs q = None \<or> workout_logs q = Some []) \<and> q \<in> set ps
        \<and> likes_succeeded be q \<and> list_all (likes_returned be) ps"
  have u: "userStats be (startOfDay d) (endOfDay d) ps =
        Inr (map (\<lambda>p. if likes_succeeded be p then Some (stat_of be d p) else None) ps)"
    using a by (simp add: userStats_returned)
  have m: "stat_of be d q \<in> set (validUserStats
             (map (\<lambda>p. if likes_succeeded be p then Some (stat_of be d p) else None) ps))"
    using a by (simp add: validUserStats_map)
  have z: "total_workouts (stat_of be d q) = 0 \<and> total_score (stat_of be d q) = 0
            \<and> daily_score (stat_of be d q) = 0"
    using a by (auto simp: stat_of_def user_stat_def dailyScore_def dailyWorkouts_def
        reduce_total_def)
  show "\<exists>stats. userStats be (startOfDay d) (endOfDay d) ps = Inr stats
            \<and> stat_of be d q \<in> set (validUserStats stats)
            \<and> total_workouts (stat_of be d q) = 0 \<and> total_score (stat_of be d q) = 0
            \<and> daily_score (stat_of be d q) = 0"
    using u m z by blast
qed

theorem missing_total_and_missing_logs_witness:
  "total \<lparr>total = None, completed_at = Some 7\<rparr> = None
   \<and> ((workout_logs profile0 = None \<or> workout_logs profile0 = Some [])
        \<and> error \<lparr>data = Some [Some (2::int)], error = None\<rparr> = None)
   \<and> ((workout_logs profile0 = None \<or> workout_logs profile0 = Some []) \<and> profile0 \<in> set [profile0]
        \<and> likes_succeeded (backend0 [profile0]) profile0
        \<and> list_all (likes_returned (backend0 [profile0])) [profile0])
   \<and> (let u = user_stat (startOfDay 0) (endOfDay 0)
                 (profile0\<lparr>workout_logs := Some ([\<lparr>total = Some 4, completed_at = Some 9\<rparr>]
                     @ \<lparr>total = None, completed_at = Some 7\<rparr> # [])\<rparr>) 0;
           v = user_stat (startOfDay 0) (endOfDay 0)
                 (profile0\<lparr>workout_logs := Some ([\<lparr>total = Some 4, completed_at = Some 9\<rparr>] @ [])\<rparr>) 0
       in total_score u = total_score v \<and> daily_score u = daily_score v
          \<and> total_workouts u = total_workouts v + 1)
   \<and> (\<exists>u. profile_stat (startOfDay 0) (endOfDay 0) profile0
              (Returned \<lparr>data = Some [Some 2], error = None\<rparr>) = Inr (Some u)
            \<and> total_workouts u = 0 \<and> total_score u = 0 \<and> daily_score u = 0)
   \<and> (\<exists>stats. userStats (backend0 [profile0]) (startOfDay 0) (endOfDay 0) [profile0] = Inr stats
            \<and> stat_of (backend0 [profile0]) 0 profile0 \<in> set (validUserStats stats))"
proof -
  have h1: "total \<lparr>total = None, completed_at = Some 7\<rparr> = None" by simp
  have h2: "(workout_logs profile0 = None \<or> workout_logs profile0 = Some [])
        \<and> error \<lparr>data = Some [Some (2::int)], error = None\<rparr> = None"
    by (simp add: profile0_def)
  have h3: "(workout_logs profile0 = None \<or> workout_logs profile0 = Some []) \<and> profile0 \<in> set [profile0]
        \<and> likes_succeeded (backend0 [profile0]) profile0
        \<and> list_all (likes_returned (backend0 [profile0])) [profile0]"
    by (simp add: profile0_def likes_succeeded_def likes_returned_def backend0_def)
  show ?thesis
    using h1 h2 h3
      missing_total_and_missing_logs [where log = "\<lparr>total = None, completed_at = Some 7\<rparr>"
        and d = 0 and p = profile0 and xs = "[\<lparr>total = Some 4, completed_at = Some 9\<rparr>]"
        and ys = "[]" and n = 0 and q = profile0
        and r = "\<lparr>data = Some [Some 2], error = None\<rparr>" and ps = "[profile0]"
        and be = "backend0 [profile0]"]
    by blast
qed

end
